theory Spec2Isabelle
  imports Complex_Main "HOL-Library.Word"
begin

section \<open>Data model of \<^verbatim>\<open>osmo-trx-dec.cpp\<close>\<close>

text \<open>
  The burst is a \<^verbatim>\<open>signalVector\<close>, a vector of complex samples; soft bits are a
  \<^verbatim>\<open>SoftVector\<close>. C++ \<^verbatim>\<open>float\<close> and \<^verbatim>\<open>double\<close> values are idealised as
  \<^typ>\<open>real\<close> (no rounding, no infinities, no NaN); \<^verbatim>\<open>unsigned\<close> is \<^typ>\<open>32 word\<close>,
  \<^verbatim>\<open>int\<close> is \<^typ>\<open>int\<close>. The only integers converted to \<^verbatim>\<open>float\<close> are the status
  codes the correlators return, which a \<^verbatim>\<open>float\<close> holds exactly.
\<close>

type_synonym signalVector = "complex list"

type_synonym SoftVector = "real list"

text \<open>The enum \<^verbatim>\<open>CorrType\<close> with its enumerator values 0 to 4, in declaration order.\<close>

datatype CorrType = OFF | TSC | RACH | EDGE | IDLE

fun int_of_CorrType :: "CorrType \<Rightarrow> int" where
  "int_of_CorrType OFF = 0"
| "int_of_CorrType TSC = 1"
| "int_of_CorrType RACH = 2"
| "int_of_CorrType EDGE = 3"
| "int_of_CorrType IDLE = 4"

text \<open>
  The cast \<^verbatim>\<open>(CorrType) rc\<close>: an integer that is the value of an enumerator becomes that
  enumerator; any other integer is no enumerator (\<open>None\<close>), and so compares unequal to
  every enumerator.
\<close>

definition CorrType_of_int :: "int \<Rightarrow> CorrType option" where
  "CorrType_of_int n =
     (if n = 0 then Some OFF
      else if n = 1 then Some TSC
      else if n = 2 then Some RACH
      else if n = 3 then Some EDGE
      else if n = 4 then Some IDLE
      else None)"

text \<open>
  The struct \<^verbatim>\<open>trx_config\<close>; its field \<^verbatim>\<open>type\<close> is named \<open>cfg_type\<close> here, since
  \<open>type\<close> is the name of the argument of both functions below.
\<close>

record trx_config =
  log_level :: string
  rx_sps :: "32 word"
  rtsc :: "32 word"
  max_expected_delay_nb :: "32 word"
  max_expected_delay_ab :: "32 word"
  rx_full_scale :: real
  edge :: bool
  cfg_type :: CorrType
  filename :: string

text \<open>
  What a correlator leaves behind: its \<^verbatim>\<open>int\<close> return value and the contents of the two
  reference parameters \<^verbatim>\<open>amp\<close> and \<^verbatim>\<open>toa\<close> after the call.
\<close>

record corr_result =
  score :: int
  amp_est :: complex
  toa_est :: real

text \<open>
  The collaborators declared in \<^verbatim>\<open>sigProcLib.h\<close>, which is not part of the source at hand,
  are parameters of the model: the two status constants used by this file, the three
  correlators, the energy estimator and the two demodulators. A correlator receives the
  arguments of the call in source order; the reference parameters \<^verbatim>\<open>amp\<close> and \<^verbatim>\<open>toa\<close>
  are passed with their contents before the call and come back in the result, so a
  correlator that leaves them untouched is covered. The energy estimator receives the
  burst, the window length, the third argument and the content of \<^verbatim>\<open>avg\<close> before the
  call, and yields the content of \<^verbatim>\<open>avg\<close> after it (its own return value is discarded
  by the caller). A demodulator yields a soft vector or the null pointer (\<open>None\<close>); the
  library's four-argument \<^verbatim>\<open>demodulateBurst(burst, sps, amp, toa)\<close>, which the
  orchestrator of the same name calls last, is \<open>demodulateBurst_sigProc\<close> here. The burst
  is an input only, as in the interface contracts of the specification.
\<close>

record sigProcLib =
  SIGERR_NONE :: int
  SIGERR_CLIP :: int
  detectEdgeBurst ::
    "signalVector \<Rightarrow> 32 word \<Rightarrow> real \<Rightarrow> 32 word \<Rightarrow> complex \<Rightarrow> real \<Rightarrow> 32 word \<Rightarrow> corr_result"
  analyzeTrafficBurst ::
    "signalVector \<Rightarrow> 32 word \<Rightarrow> real \<Rightarrow> 32 word \<Rightarrow> complex \<Rightarrow> real \<Rightarrow> 32 word \<Rightarrow> corr_result"
  detectRACHBurst ::
    "signalVector \<Rightarrow> real \<Rightarrow> 32 word \<Rightarrow> complex \<Rightarrow> real \<Rightarrow> 32 word \<Rightarrow> corr_result"
  energyDetect :: "signalVector \<Rightarrow> 32 word \<Rightarrow> real \<Rightarrow> real \<Rightarrow> real"
  demodEdgeBurst :: "signalVector \<Rightarrow> 32 word \<Rightarrow> complex \<Rightarrow> real \<Rightarrow> SoftVector option"
  demodulateBurst_sigProc :: "signalVector \<Rightarrow> 32 word \<Rightarrow> complex \<Rightarrow> real \<Rightarrow> SoftVector option"

text \<open>
  Everything the program does besides computing values is recorded as an event, in
  program order: calls of the collaborators with the arguments passed by value, log
  lines, and output on the console.
\<close>

datatype log_priority = ERR | WARNING

datatype event =
    Call_detectEdgeBurst signalVector "32 word" real "32 word" "32 word"
  | Call_analyzeTrafficBurst signalVector "32 word" real "32 word" "32 word"
  | Call_detectRACHBurst signalVector real "32 word" "32 word"
  | Call_energyDetect signalVector "32 word" real
  | Call_demodEdgeBurst signalVector "32 word" complex real
  | Call_demodulateBurst signalVector "32 word" complex real
  | LOG log_priority string
  | Cout string
  | Printf string "32 word list"
  | Print_help
  | Print_config

section \<open>The detection cascade \<^verbatim>\<open>detectBurst\<close>\<close>

text \<open>
  The local \<^verbatim>\<open>rc\<close> is a \<^verbatim>\<open>float\<close>: the \<^verbatim>\<open>int\<close> a correlator returns is converted to it,
  the test \<^verbatim>\<open>rc > 0\<close> is made on it, and \<^verbatim>\<open>return rc\<close> converts it back to \<^verbatim>\<open>int\<close> by
  truncation towards zero.
\<close>

definition float_to_int :: "real \<Rightarrow> int" where
  "float_to_int x = (if 0 \<le> x then \<lfloor>x\<rfloor> else \<lceil>x\<rceil>)"

record detect_result =
  det_rc :: int
  det_amp :: complex
  det_toa :: real
  det_events :: "event list"

text \<open>The two statements after the \<^verbatim>\<open>switch\<close>.\<close>

definition detectBurst_return ::
  "CorrType \<Rightarrow> real \<Rightarrow> complex \<Rightarrow> real \<Rightarrow> event list \<Rightarrow> detect_result" where
  "detectBurst_return type rc amp toa evs =
     \<lparr>det_rc = (if rc > 0 then int_of_CorrType type else float_to_int rc),
      det_amp = amp, det_toa = toa, det_events = evs\<rparr>"

text \<open>
  The statements under the label \<^verbatim>\<open>case TSC:\<close>, reached with \<^verbatim>\<open>type = TSC\<close> either
  directly or by falling through from \<^verbatim>\<open>case EDGE:\<close>.
\<close>

definition detectBurst_case_TSC ::
  "sigProcLib \<Rightarrow> trx_config \<Rightarrow> signalVector \<Rightarrow> complex \<Rightarrow> real \<Rightarrow> real \<Rightarrow> event list
     \<Rightarrow> detect_result" where
  "detectBurst_case_TSC L config burst amp toa threshold evs =
     (let r = analyzeTrafficBurst L burst (rtsc config) threshold (rx_sps config)
                amp toa (max_expected_delay_nb config);
          rc = real_of_int (score r)
      in detectBurst_return TSC rc (amp_est r) (toa_est r)
           (evs @ [Call_analyzeTrafficBurst burst (rtsc config) threshold (rx_sps config)
                     (max_expected_delay_nb config)]))"

definition detectBurst ::
  "sigProcLib \<Rightarrow> trx_config \<Rightarrow> signalVector \<Rightarrow> complex \<Rightarrow> real \<Rightarrow> CorrType \<Rightarrow> detect_result" where
  "detectBurst L config burst amp toa type =
     (let threshold = 5; rc = 0 in
      case type of
        EDGE \<Rightarrow>
          (let r = detectEdgeBurst L burst (rtsc config) threshold (rx_sps config)
                     amp toa (max_expected_delay_nb config);
               rc = real_of_int (score r);
               evs = [Call_detectEdgeBurst burst (rtsc config) threshold (rx_sps config)
                        (max_expected_delay_nb config)]
           in if rc > 0 then detectBurst_return EDGE rc (amp_est r) (toa_est r) evs
              else detectBurst_case_TSC L config burst (amp_est r) (toa_est r) threshold evs)
      | TSC \<Rightarrow> detectBurst_case_TSC L config burst amp toa threshold []
      | RACH \<Rightarrow>
          (let threshold = 6;
               r = detectRACHBurst L burst threshold (rx_sps config) amp toa
                     (max_expected_delay_ab config);
               rc = real_of_int (score r)
           in detectBurst_return RACH rc (amp_est r) (toa_est r)
                [Call_detectRACHBurst burst threshold (rx_sps config)
                   (max_expected_delay_ab config)])
      | IDLE \<Rightarrow> detectBurst_return IDLE (real_of_int (SIGERR_NONE L)) amp toa []
      | OFF \<Rightarrow> detectBurst_return OFF rc amp toa [LOG ERR ''Invalid correlation type''])"

section \<open>The orchestrator \<^verbatim>\<open>demodulateBurst\<close>\<close>

text \<open>
  The result of a call: the returned pointer (\<open>None\<close> is \<^verbatim>\<open>NULL\<close>), the contents of the
  two reference parameters \<^verbatim>\<open>RSSI\<close> and \<^verbatim>\<open>timingOffset\<close> after the call, and the events.
\<close>

record demod_result =
  softBits :: "SoftVector option"
  RSSI_out :: real
  timingOffset_out :: real
  events :: "event list"

text \<open>
  The arguments are those of the source, in order, with \<^verbatim>\<open>RSSI\<close> and \<^verbatim>\<open>timingOffset\<close>
  holding the caller's values before the call; the last two arguments are the contents
  of the uninitialised locals \<^verbatim>\<open>amp\<close> and \<^verbatim>\<open>toa\<close>. The local \<^verbatim>\<open>avg\<close> starts at 0.
  The branch \<^verbatim>\<open>else if (rc <= 0)\<close> is the plain \<open>else\<close> of \<^verbatim>\<open>rc > 0\<close> on integers.
\<close>

definition demodulateBurst ::
  "sigProcLib \<Rightarrow> trx_config \<Rightarrow> signalVector \<Rightarrow> int \<Rightarrow> real \<Rightarrow> real \<Rightarrow> CorrType
     \<Rightarrow> complex \<Rightarrow> real \<Rightarrow> demod_result" where
  "demodulateBurst L config burst SPSRx RSSI timingOffset type amp toa =
     (let avg = energyDetect L burst (20 * rx_sps config) 0 0;
          RSSI = 20 * log 10 (rx_full_scale config / avg);
          evs = [Call_energyDetect burst (20 * rx_sps config) 0];
          d = detectBurst L config burst amp toa type;
          rc = det_rc d;
          evs = evs @ det_events d
      in if rc > 0 then
           (let type = CorrType_of_int rc;
                timingOffset = det_toa d / real_of_int SPSRx
            in if type = Some EDGE then
                 \<lparr>softBits = demodEdgeBurst L burst (rx_sps config) (det_amp d) (det_toa d),
                  RSSI_out = RSSI, timingOffset_out = timingOffset,
                  events = evs @ [Call_demodEdgeBurst burst (rx_sps config) (det_amp d) (det_toa d)]\<rparr>
               else
                 \<lparr>softBits = demodulateBurst_sigProc L burst (rx_sps config) (det_amp d) (det_toa d),
                  RSSI_out = RSSI, timingOffset_out = timingOffset,
                  events = evs @ [Call_demodulateBurst burst (rx_sps config) (det_amp d) (det_toa d)]\<rparr>)
         else
           \<lparr>softBits = None, RSSI_out = RSSI, timingOffset_out = timingOffset,
            events = evs @
              (if rc = - SIGERR_CLIP L then
                 [Cout ''Clipping detected on received RACH or Normal Burst'']
               else if rc \<noteq> SIGERR_NONE L then
                 [LOG WARNING ''Unhandled RACH or Normal Burst detection error'']
               else [])\<rparr>)"

section \<open>Option checks and \<^verbatim>\<open>main\<close>\<close>

text \<open>
  How the process ends: by a call of \<^verbatim>\<open>exit\<close> or by returning from \<^verbatim>\<open>main\<close>.
\<close>

datatype exit_status = Exit int | Return int

text \<open>
  \<^verbatim>\<open>handle_options\<close> from the end of the \<^verbatim>\<open>getopt\<close> loop on: the argument is the
  configuration as the loop has filled it (\<^verbatim>\<open>atoi\<close> results stored into the unsigned
  fields). The three checks run in source order; each prints its message and the help
  text and calls \<^verbatim>\<open>exit(0)\<close>. The trailing newlines of the messages are left out.
\<close>

definition handle_options :: "trx_config \<Rightarrow> (event list \<times> exit_status) + trx_config" where
  "handle_options config =
     (if rx_sps config \<noteq> 1 \<and> rx_sps config \<noteq> 4 then
        Inl ([Printf ''Unsupported samples-per-symbol %i'' [rx_sps config], Print_help], Exit 0)
      else if edge config \<and> rx_sps config \<noteq> 4 then
        Inl ([Printf ''EDGE only supported at 4 samples per symbol'' [], Print_help], Exit 0)
      else if rtsc config > 7 then
        Inl ([Printf ''Invalid training sequence %i'' [rtsc config], Print_help], Exit 0)
      else Inr config)"

text \<open>
  The buffer of \<^verbatim>\<open>main\<close>: \<^verbatim>\<open>signalVector burst(156)\<close> has 156 complex elements, and
  \<^verbatim>\<open>file.read\<close> is asked for \<^verbatim>\<open>burst.size() * 2 * sizeof(float)\<close> bytes, that is
  \<open>156 * 2\<close> floats. The file is given as the list of its floats; element \<open>i\<close> of the
  buffer takes its real part from float \<open>2 * i\<close> and its imaginary part from float
  \<open>2 * i + 1\<close> of what was read, and keeps its content after construction (\<open>init i\<close>)
  where the file is too short.
\<close>

definition burst_size :: nat where
  "burst_size = 156"

definition floats_read :: "real list \<Rightarrow> real list" where
  "floats_read file = take (burst_size * 2) file"

definition main_burst :: "real list \<Rightarrow> (nat \<Rightarrow> complex) \<Rightarrow> signalVector" where
  "main_burst file init =
     (let fl = floats_read file in
      map (\<lambda>i. Complex (if 2 * i < length fl then fl ! (2 * i) else Re (init i))
                        (if 2 * i + 1 < length fl then fl ! (2 * i + 1) else Im (init i)))
          [0..<burst_size])"

text \<open>
  \<^verbatim>\<open>main\<close> after option parsing: the checks, the configuration print-out, the read of
  the burst, one call of the orchestrator with \<^verbatim>\<open>config.rx_sps\<close> converted to \<^verbatim>\<open>int\<close>,
  and \<^verbatim>\<open>return 0\<close>. The locals \<^verbatim>\<open>RSSI\<close> and \<^verbatim>\<open>timingOffset\<close> are uninitialised; their
  contents are arguments, as are those of \<^verbatim>\<open>amp\<close> and \<^verbatim>\<open>toa\<close>.
\<close>

definition main ::
  "sigProcLib \<Rightarrow> trx_config \<Rightarrow> real list \<Rightarrow> (nat \<Rightarrow> complex) \<Rightarrow> real \<Rightarrow> real \<Rightarrow> complex \<Rightarrow> real
     \<Rightarrow> event list \<times> exit_status" where
  "main L config0 file init RSSI timingOffset amp toa =
     (case handle_options config0 of
        Inl stop \<Rightarrow> stop
      | Inr config \<Rightarrow>
          (let burst = main_burst file init;
               r = demodulateBurst L config burst (sint (rx_sps config)) RSSI timingOffset
                     (cfg_type config) amp toa
           in (Print_config # events r, Return 0)))"

section \<open>Concrete collaborators and configurations for the examples\<close>

text \<open>
  Collaborators that ignore their arguments and answer with fixed values, and the
  configuration \<^verbatim>\<open>handle_options\<close> sets up before it reads any option. They serve as
  concrete inputs at which the theorems below are instantiated.
\<close>

definition stub_corr ::
  "int \<Rightarrow> complex \<Rightarrow> real \<Rightarrow> signalVector \<Rightarrow> 32 word \<Rightarrow> real \<Rightarrow> 32 word \<Rightarrow> complex \<Rightarrow> real \<Rightarrow> 32 word
     \<Rightarrow> corr_result" where
  "stub_corr s a t burst tsc threshold sps amp toa max_toa =
     \<lparr>score = s, amp_est = a, toa_est = t\<rparr>"

definition stub_rach ::
  "int \<Rightarrow> complex \<Rightarrow> real \<Rightarrow> signalVector \<Rightarrow> real \<Rightarrow> 32 word \<Rightarrow> complex \<Rightarrow> real \<Rightarrow> 32 word
     \<Rightarrow> corr_result" where
  "stub_rach s a t burst threshold sps amp toa max_toa =
     \<lparr>score = s, amp_est = a, toa_est = t\<rparr>"

definition stub_energy :: "real \<Rightarrow> signalVector \<Rightarrow> 32 word \<Rightarrow> real \<Rightarrow> real \<Rightarrow> real" where
  "stub_energy v burst window threshold avg = v"

definition stub_demod ::
  "SoftVector option \<Rightarrow> signalVector \<Rightarrow> 32 word \<Rightarrow> complex \<Rightarrow> real \<Rightarrow> SoftVector option" where
  "stub_demod bits burst sps amp toa = bits"

definition example_lib :: "int \<Rightarrow> int \<Rightarrow> int \<Rightarrow> sigProcLib" where
  "example_lib s_edge s_tsc s_rach =
     \<lparr>SIGERR_NONE = 0, SIGERR_CLIP = 2,
      detectEdgeBurst = stub_corr s_edge 1 3,
      analyzeTrafficBurst = stub_corr s_tsc 2 8,
      detectRACHBurst = stub_rach s_rach 3 12,
      energyDetect = stub_energy 32767,
      demodEdgeBurst = stub_demod (Some [1, 1, 1]),
      demodulateBurst_sigProc = stub_demod (Some [0, 1])\<rparr>"

definition default_config :: trx_config where
  "default_config =
     \<lparr>log_level = ''NOTICE'', rx_sps = 1, rtsc = 0, max_expected_delay_nb = 30,
      max_expected_delay_ab = 30, rx_full_scale = 32767, edge = False, cfg_type = TSC,
      filename = []\<rparr>"

definition zero_init :: "nat \<Rightarrow> complex" where
  "zero_init i = 0"

section \<open>Classifying events\<close>

text \<open>Which events are calls of a correlator, and which are calls of a demodulator.\<close>

fun is_correlator_call :: "event \<Rightarrow> bool" where
  "is_correlator_call (Call_detectEdgeBurst b t th s m) = True"
| "is_correlator_call (Call_analyzeTrafficBurst b t th s m) = True"
| "is_correlator_call (Call_detectRACHBurst b th s m) = True"
| "is_correlator_call e = False"

fun is_demod_call :: "event \<Rightarrow> bool" where
  "is_demod_call (Call_demodEdgeBurst b s a t) = True"
| "is_demod_call (Call_demodulateBurst b s a t) = True"
| "is_demod_call e = False"

section \<open>Basic facts\<close>

lemma float_to_int_of_int: "float_to_int (real_of_int n) = n"
  by (simp add: float_to_int_def)

lemma det_rc_return:
  "det_rc (detectBurst_return ty (real_of_int n) amp toa evs) =
     (if 0 < n then int_of_CorrType ty else n)"
  by (simp add: detectBurst_return_def float_to_int_of_int)

lemma det_rc_return_zero: "det_rc (detectBurst_return ty 0 amp toa evs) = 0"
  by (simp add: detectBurst_return_def float_to_int_def)

lemma det_fields_return:
  "det_amp (detectBurst_return ty rc amp toa evs) = amp"
  "det_toa (detectBurst_return ty rc amp toa evs) = toa"
  "det_events (detectBurst_return ty rc amp toa evs) = evs"
  by (simp_all add: detectBurst_return_def)

lemma detectBurst_no_demod_call:
  "filter is_demod_call (det_events (detectBurst L config burst amp toa type)) = []"
  by (cases type)
     (simp_all add: detectBurst_def detectBurst_case_TSC_def detectBurst_return_def Let_def)

lemma detectBurst_positive_code:
  assumes "0 < det_rc (detectBurst L config burst amp toa type)"
  shows "det_rc (detectBurst L config burst amp toa type) \<in> {1, 2, 3, 4}"
  using assms
  by (cases type)
     (auto simp add: detectBurst_def detectBurst_case_TSC_def Let_def det_rc_return
        det_rc_return_zero split: if_splits)

lemma CorrType_of_int_code: "CorrType_of_int (int_of_CorrType t) = Some t"
  by (cases t) (simp_all add: CorrType_of_int_def)

lemma CorrType_of_int_Some: "CorrType_of_int n = Some t \<Longrightarrow> int_of_CorrType t = n"
  by (auto simp add: CorrType_of_int_def split: if_splits)

text \<open>
  For the sample rates the option checks let through, the window length \<^verbatim>\<open>20 * rx_sps\<close>
  does not wrap around in unsigned arithmetic.
\<close>

lemma window_no_wrap:
  "rx_sps config = 1 \<or> rx_sps config = 4 \<Longrightarrow>
     unat (20 * rx_sps config) = 20 * unat (rx_sps config)"
  by auto

lemma length_main_burst: "length (main_burst file init) = burst_size"
  by (simp add: main_burst_def Let_def)

lemma length_floats_read: "length (floats_read file) = min (length file) (burst_size * 2)"
  by (simp add: floats_read_def)

lemma floats_read_take: "floats_read (take (burst_size * 2) file) = floats_read file"
  by (simp add: floats_read_def)

lemma main_burst_take: "main_burst (take (burst_size * 2) file) init = main_burst file init"
  by (simp add: main_burst_def floats_read_take)

lemma main_accepted:
  "handle_options config = Inr config \<Longrightarrow>
     main L config file init RSSI timingOffset amp toa =
       (Print_config # events (demodulateBurst L config (main_burst file init)
          (sint (rx_sps config)) RSSI timingOffset (cfg_type config) amp toa), Return 0)"
  by (simp add: main_def Let_def)

lemma burst_size_value: "burst_size = 156"
  by (simp add: burst_size_def)

lemma handle_options_sps4:
  "handle_options (default_config\<lparr>rx_sps := 4\<rparr>) = Inr (default_config\<lparr>rx_sps := 4\<rparr>)"
  by (simp add: default_config_def handle_options_def)

section \<open>The detection cascade\<close>

text \<open>
  Claim C7. A request of type \<open>IDLE\<close> invokes no correlator and logs nothing (the event
  list is empty), leaves \<^verbatim>\<open>amp\<close> and \<^verbatim>\<open>toa\<close> as they were, and returns the neutral code
  \<^verbatim>\<open>SIGERR_NONE\<close>, which is not a positive classification, whatever the configuration and
  the burst. The value of \<^verbatim>\<open>SIGERR_NONE\<close> is declared outside this file; that it is
  non-positive, as the specification says of the neutral code, is the hypothesis.
\<close>

theorem detectBurst_IDLE_neutral:
  assumes "SIGERR_NONE L \<le> 0"
  shows "detectBurst L config burst amp toa IDLE =
           \<lparr>det_rc = SIGERR_NONE L, det_amp = amp, det_toa = toa, det_events = []\<rparr>
         \<and> \<not> 0 < det_rc (detectBurst L config burst amp toa IDLE)"
  using assms by (simp add: detectBurst_def detectBurst_return_def float_to_int_of_int)

theorem detectBurst_IDLE_neutral_witness:
  "SIGERR_NONE (example_lib 1 1 1) \<le> 0
   \<and> detectBurst (example_lib 1 1 1) default_config [1, 2] 7 9 IDLE =
       \<lparr>det_rc = 0, det_amp = 7, det_toa = 9, det_events = []\<rparr>"
  using detectBurst_IDLE_neutral [of "example_lib 1 1 1" default_config "[1, 2]" 7 9]
  by (simp add: example_lib_def)

text \<open>
  Claim C1. When type \<open>EDGE\<close> is requested and the EDGE correlator returns a non-positive
  score, the cascade makes exactly two calls: the EDGE correlator, then the normal-burst
  correlator \<^verbatim>\<open>analyzeTrafficBurst\<close> on the same burst, with the same training sequence
  index, the same threshold 5, the same samples-per-symbol and the normal-burst delay
  bound \<^verbatim>\<open>max_expected_delay_nb\<close>. The amplitude and time of arrival reported are those the
  normal-burst correlator leaves, and if its score is positive the cascade returns the
  code of \<open>TSC\<close>, which is not the code of \<open>EDGE\<close>.
\<close>

theorem detectBurst_EDGE_fallback:
  assumes "score (detectEdgeBurst L burst (rtsc config) 5 (rx_sps config) amp toa
                    (max_expected_delay_nb config)) \<le> 0"
  shows "(let e = detectEdgeBurst L burst (rtsc config) 5 (rx_sps config) amp toa
                    (max_expected_delay_nb config);
              t = analyzeTrafficBurst L burst (rtsc config) 5 (rx_sps config)
                    (amp_est e) (toa_est e) (max_expected_delay_nb config);
              d = detectBurst L config burst amp toa EDGE
          in det_events d =
               [Call_detectEdgeBurst burst (rtsc config) 5 (rx_sps config)
                  (max_expected_delay_nb config),
                Call_analyzeTrafficBurst burst (rtsc config) 5 (rx_sps config)
                  (max_expected_delay_nb config)]
             \<and> det_amp d = amp_est t \<and> det_toa d = toa_est t
             \<and> (0 < score t \<longrightarrow>
                  det_rc d = int_of_CorrType TSC \<and> det_rc d \<noteq> int_of_CorrType EDGE))"
  using assms
  by (simp add: detectBurst_def detectBurst_case_TSC_def Let_def det_rc_return det_fields_return)

theorem detectBurst_EDGE_fallback_witness:
  "score (detectEdgeBurst (example_lib 0 1 1) [1, 2] (rtsc default_config) 5
            (rx_sps default_config) 7 9 (max_expected_delay_nb default_config)) \<le> 0
   \<and> 0 < score (analyzeTrafficBurst (example_lib 0 1 1) [1, 2] (rtsc default_config) 5
                  (rx_sps default_config) 1 3 (max_expected_delay_nb default_config))
   \<and> detectBurst (example_lib 0 1 1) default_config [1, 2] 7 9 EDGE =
       \<lparr>det_rc = 1, det_amp = 2, det_toa = 8,
        det_events =
          [Call_detectEdgeBurst [1, 2] 0 5 1 30, Call_analyzeTrafficBurst [1, 2] 0 5 1 30]\<rparr>"
  using detectBurst_EDGE_fallback [of "example_lib 0 1 1" "[1, 2]" default_config 7 9]
  by (simp add: example_lib_def default_config_def stub_corr_def Let_def
        detectBurst_def detectBurst_case_TSC_def detectBurst_return_def)

text \<open>
  Claim C9. \<open>OFF\<close> is the one enumerator outside \<open>EDGE\<close>, \<open>TSC\<close>, \<open>RACH\<close> and \<open>IDLE\<close>, and
  it takes the \<^verbatim>\<open>default\<close> branch: the cascade logs the invalid-type error at priority
  \<open>ERR\<close> and does nothing else (no correlator call among its events, \<^verbatim>\<open>amp\<close> and \<^verbatim>\<open>toa\<close>
  untouched), returns 0, which is not a positive classification, and the orchestrator
  returns the null pointer for that burst.
\<close>

theorem invalid_type_no_classification:
  "detectBurst L config burst amp toa OFF =
     \<lparr>det_rc = 0, det_amp = amp, det_toa = toa,
      det_events = [LOG ERR ''Invalid correlation type'']\<rparr>
   \<and> filter is_correlator_call (det_events (detectBurst L config burst amp toa OFF)) = []
   \<and> \<not> 0 < det_rc (detectBurst L config burst amp toa OFF)
   \<and> softBits (demodulateBurst L config burst SPSRx RSSI timingOffset OFF amp toa) = None"
  by (simp add: demodulateBurst_def detectBurst_def detectBurst_return_def float_to_int_def
        Let_def)

section \<open>The orchestrator\<close>

text \<open>
  Claim C3. On every call the \<^verbatim>\<open>RSSI\<close> reference parameter ends up holding
  \<open>20 * log 10 (rx_full_scale / avg)\<close>, where \<open>avg\<close> is what the energy estimator leaves in
  \<^verbatim>\<open>avg\<close> when called on the burst with window length \<^verbatim>\<open>20 * rx_sps\<close>, third argument 0
  and \<^verbatim>\<open>avg\<close> initially 0. The value does not depend on the requested type, on the
  correlators, the demodulators or the status constants (they are replaced by arbitrary
  ones on the left-hand side), nor on \<^verbatim>\<open>SPSRx\<close> or the previous contents of the reference
  parameters: it is the same whether classification succeeds or fails. The call of the
  energy estimator is the first event, before every event of the cascade. Over the
  reals the quotient and the logarithm are taken as HOL defines them; for \<open>avg = 0\<close> the
  program yields an infinity or NaN, which the model does not represent.
\<close>

theorem demodulateBurst_RSSI:
  "RSSI_out (demodulateBurst
       (L\<lparr>SIGERR_NONE := none, SIGERR_CLIP := clip, detectEdgeBurst := c_edge,
          analyzeTrafficBurst := c_tsc, detectRACHBurst := c_rach,
          demodEdgeBurst := d_edge, demodulateBurst_sigProc := d_gen\<rparr>)
       config burst SPSRx RSSI timingOffset type amp toa) =
     20 * log 10 (rx_full_scale config / energyDetect L burst (20 * rx_sps config) 0 0)
   \<and> take (Suc (length (det_events (detectBurst L config burst amp toa type))))
        (events (demodulateBurst L config burst SPSRx RSSI timingOffset type amp toa)) =
       Call_energyDetect burst (20 * rx_sps config) 0
         # det_events (detectBurst L config burst amp toa type)"
  by (simp add: demodulateBurst_def Let_def)

text \<open>
  Claim C10. When the cascade returns a non-positive code, the orchestrator returns the
  null pointer and the \<^verbatim>\<open>timingOffset\<close> reference parameter still holds the caller's
  value, while the \<^verbatim>\<open>RSSI\<close> reference parameter holds the freshly computed value, not the
  caller's.
\<close>

theorem demodulateBurst_frame:
  assumes "det_rc (detectBurst L config burst amp toa type) \<le> 0"
  shows "softBits (demodulateBurst L config burst SPSRx RSSI timingOffset type amp toa) = None
    \<and> timingOffset_out (demodulateBurst L config burst SPSRx RSSI timingOffset type amp toa) =
        timingOffset
    \<and> RSSI_out (demodulateBurst L config burst SPSRx RSSI timingOffset type amp toa) =
        20 * log 10 (rx_full_scale config / energyDetect L burst (20 * rx_sps config) 0 0)"
  using assms by (simp add: demodulateBurst_def Let_def)

theorem demodulateBurst_frame_witness:
  "det_rc (detectBurst (example_lib 1 1 0) default_config [1, 2] 7 9 RACH) \<le> 0
   \<and> demodulateBurst (example_lib 1 1 0) default_config [1, 2] 1 (- 40) 5 RACH 7 9 =
       \<lparr>softBits = None, RSSI_out = 0, timingOffset_out = 5,
        events = [Call_energyDetect [1, 2] 20 0, Call_detectRACHBurst [1, 2] 6 1 30]\<rparr>"
  using demodulateBurst_frame [of "example_lib 1 1 0" default_config "[1, 2]" 7 9 RACH 1 "- 40" 5]
  by (simp add: example_lib_def default_config_def stub_rach_def stub_energy_def Let_def
        detectBurst_def detectBurst_return_def float_to_int_def demodulateBurst_def)

text \<open>
  Claim C8. When the cascade returns a positive code and \<^verbatim>\<open>SPSRx\<close> is 1 or 4, the
  \<^verbatim>\<open>timingOffset\<close> reference parameter ends up holding the raw time of arrival the
  cascade reports, divided by the argument \<^verbatim>\<open>SPSRx\<close> (not by \<^verbatim>\<open>config.rx_sps\<close>).
\<close>

theorem demodulateBurst_timingOffset:
  assumes "0 < det_rc (detectBurst L config burst amp toa type)"
    and "SPSRx = 1 \<or> SPSRx = 4"
  shows "timingOffset_out (demodulateBurst L config burst SPSRx RSSI timingOffset type amp toa) =
           det_toa (detectBurst L config burst amp toa type) / real_of_int SPSRx"
  using assms by (simp add: demodulateBurst_def Let_def)

theorem demodulateBurst_timingOffset_witness:
  "0 < det_rc (detectBurst (example_lib 1 1 1) default_config [1, 2] 7 9 TSC)
   \<and> det_toa (detectBurst (example_lib 1 1 1) default_config [1, 2] 7 9 TSC) = 8
   \<and> timingOffset_out
       (demodulateBurst (example_lib 1 1 1) default_config [1, 2] 4 (- 40) 5 TSC 7 9) = 2
   \<and> timingOffset_out
       (demodulateBurst (example_lib 1 1 1) default_config [1, 2] 1 (- 40) 5 TSC 7 9) = 8"
  using demodulateBurst_timingOffset [of "example_lib 1 1 1" default_config "[1, 2]" 7 9 TSC 4 "- 40" 5]
    demodulateBurst_timingOffset [of "example_lib 1 1 1" default_config "[1, 2]" 7 9 TSC 1 "- 40" 5]
  by (simp add: example_lib_def default_config_def stub_corr_def Let_def
        detectBurst_def detectBurst_case_TSC_def detectBurst_return_def)

text \<open>
  Claim C4. When the cascade returns a positive code, that code is the value of an
  enumerator \<open>t\<close>, the resolved type, and the orchestrator dispatches on \<open>t\<close> alone: it
  makes exactly one demodulator call, as its last event, with the burst,
  \<^verbatim>\<open>config.rx_sps\<close> and the amplitude and raw time of arrival the cascade reports; the
  call is to the EDGE demodulator if \<open>t\<close> is \<open>EDGE\<close> and to the generic demodulator
  otherwise, and the result of that call is returned. In particular, when \<open>EDGE\<close> was
  requested and the EDGE correlator did not return a positive score (so the positive
  code comes from the normal-burst correlator), the one demodulator call is to the
  generic demodulator.
\<close>

theorem demodulateBurst_dispatch:
  assumes "0 < det_rc (detectBurst L config burst amp toa type)"
  shows "(let d = detectBurst L config burst amp toa type;
              r = demodulateBurst L config burst SPSRx RSSI timingOffset type amp toa;
              call_edge = Call_demodEdgeBurst burst (rx_sps config) (det_amp d) (det_toa d);
              call_generic = Call_demodulateBurst burst (rx_sps config) (det_amp d) (det_toa d)
          in (\<exists>t. CorrType_of_int (det_rc d) = Some t
                \<and> filter is_demod_call (events r) = [if t = EDGE then call_edge else call_generic]
                \<and> last (events r) = (if t = EDGE then call_edge else call_generic)
                \<and> softBits r =
                    (if t = EDGE
                     then demodEdgeBurst L burst (rx_sps config) (det_amp d) (det_toa d)
                     else demodulateBurst_sigProc L burst (rx_sps config) (det_amp d) (det_toa d)))
             \<and> (type = EDGE
                  \<and> score (detectEdgeBurst L burst (rtsc config) 5 (rx_sps config)
                             amp toa (max_expected_delay_nb config)) \<le> 0
                \<longrightarrow> filter is_demod_call (events r) = [call_generic]
                    \<and> softBits r =
                        demodulateBurst_sigProc L burst (rx_sps config) (det_amp d) (det_toa d)))"
proof -
  let ?d = "detectBurst L config burst amp toa type"
  from assms have "det_rc ?d \<in> {1, 2, 3, 4}"
    by (rule detectBurst_positive_code)
  then obtain t where t: "CorrType_of_int (det_rc ?d) = Some t"
    by (auto simp add: CorrType_of_int_def)
  have nd: "filter is_demod_call (det_events ?d) = []"
    by (rule detectBurst_no_demod_call)
  have fb: "det_rc ?d = 1"
    if "type = EDGE"
      and "score (detectEdgeBurst L burst (rtsc config) 5 (rx_sps config)
                    amp toa (max_expected_delay_nb config)) \<le> 0"
    using assms that
    by (simp add: detectBurst_def detectBurst_case_TSC_def Let_def det_rc_return
          split: if_splits)
  show ?thesis
    using assms t nd fb by (auto simp add: demodulateBurst_def Let_def CorrType_of_int_def)
qed

theorem demodulateBurst_dispatch_witness:
  "0 < det_rc (detectBurst (example_lib 0 1 1) (default_config\<lparr>rx_sps := 4, edge := True\<rparr>)
                 [1, 2] 7 9 EDGE)
   \<and> score (detectEdgeBurst (example_lib 0 1 1) [1, 2] 0 5 4 7 9 30) \<le> 0
   \<and> demodulateBurst (example_lib 0 1 1) (default_config\<lparr>rx_sps := 4, edge := True\<rparr>)
         [1, 2] 4 (- 40) 5 EDGE 7 9 =
       \<lparr>softBits = Some [0, 1], RSSI_out = 0, timingOffset_out = 2,
        events = [Call_energyDetect [1, 2] 80 0, Call_detectEdgeBurst [1, 2] 0 5 4 30,
                  Call_analyzeTrafficBurst [1, 2] 0 5 4 30, Call_demodulateBurst [1, 2] 4 2 8]\<rparr>
   \<and> 0 < det_rc (detectBurst (example_lib 1 1 1) (default_config\<lparr>rx_sps := 4, edge := True\<rparr>)
                   [1, 2] 7 9 EDGE)
   \<and> demodulateBurst (example_lib 1 1 1) (default_config\<lparr>rx_sps := 4, edge := True\<rparr>)
         [1, 2] 4 (- 40) 5 EDGE 7 9 =
       \<lparr>softBits = Some [1, 1, 1], RSSI_out = 0, timingOffset_out = 3 / 4,
        events = [Call_energyDetect [1, 2] 80 0, Call_detectEdgeBurst [1, 2] 0 5 4 30,
                  Call_demodEdgeBurst [1, 2] 4 1 3]\<rparr>"
  using demodulateBurst_dispatch [of "example_lib 0 1 1"
      "default_config\<lparr>rx_sps := 4, edge := True\<rparr>" "[1, 2]" 7 9 EDGE 4 "- 40" 5]
    demodulateBurst_dispatch [of "example_lib 1 1 1"
      "default_config\<lparr>rx_sps := 4, edge := True\<rparr>" "[1, 2]" 7 9 EDGE 4 "- 40" 5]
  by (simp add: example_lib_def default_config_def stub_corr_def stub_energy_def stub_demod_def
        Let_def detectBurst_def detectBurst_case_TSC_def detectBurst_return_def
        demodulateBurst_def CorrType_of_int_def)

text \<open>
  Claim C2. When the cascade returns a non-positive code, the orchestrator returns the
  null pointer. After the call of the energy estimator and the events of the cascade it
  does one of three things: for the clipping code \<^verbatim>\<open>-SIGERR_CLIP\<close> it writes the clipping
  message to the console; for the neutral code \<^verbatim>\<open>SIGERR_NONE\<close> it adds no event at all;
  for any other code it logs the unhandled-detection message at priority \<open>WARNING\<close>. The
  process is not terminated: for a configuration that passes the option checks, \<^verbatim>\<open>main\<close>
  ends by returning 0, whatever the cascade returns. The two status constants are
  declared outside this file; that the neutral code and the clipping code differ is the
  second hypothesis.
\<close>

theorem demodulateBurst_failure_null:
  assumes "det_rc (detectBurst L config burst amp toa type) \<le> 0"
    and "SIGERR_NONE L \<noteq> - SIGERR_CLIP L"
  shows "(let d = detectBurst L config burst amp toa type;
              r = demodulateBurst L config burst SPSRx RSSI timingOffset type amp toa;
              pre = Call_energyDetect burst (20 * rx_sps config) 0 # det_events d
          in softBits r = None
             \<and> (det_rc d = - SIGERR_CLIP L \<longrightarrow>
                  events r = pre @ [Cout ''Clipping detected on received RACH or Normal Burst''])
             \<and> (det_rc d = SIGERR_NONE L \<longrightarrow> events r = pre)
             \<and> (det_rc d \<noteq> - SIGERR_CLIP L \<and> det_rc d \<noteq> SIGERR_NONE L \<longrightarrow>
                  events r =
                    pre @ [LOG WARNING ''Unhandled RACH or Normal Burst detection error'']))
         \<and> (handle_options config = Inr config \<longrightarrow>
              snd (main L config file init RSSI timingOffset amp toa) = Return 0)"
  using assms by (simp add: demodulateBurst_def main_def Let_def)

theorem demodulateBurst_failure_null_witness:
  "det_rc (detectBurst (example_lib 1 (- 2) 1) default_config [1, 2] 7 9 TSC) = - 2
   \<and> SIGERR_NONE (example_lib 1 (- 2) 1) \<noteq> - SIGERR_CLIP (example_lib 1 (- 2) 1)
   \<and> demodulateBurst (example_lib 1 (- 2) 1) default_config [1, 2] 1 (- 40) 5 TSC 7 9 =
       \<lparr>softBits = None, RSSI_out = 0, timingOffset_out = 5,
        events = [Call_energyDetect [1, 2] 20 0, Call_analyzeTrafficBurst [1, 2] 0 5 1 30,
                  Cout ''Clipping detected on received RACH or Normal Burst'']\<rparr>
   \<and> det_rc (detectBurst (example_lib 1 0 1) default_config [1, 2] 7 9 TSC) = 0
   \<and> demodulateBurst (example_lib 1 0 1) default_config [1, 2] 1 (- 40) 5 TSC 7 9 =
       \<lparr>softBits = None, RSSI_out = 0, timingOffset_out = 5,
        events = [Call_energyDetect [1, 2] 20 0, Call_analyzeTrafficBurst [1, 2] 0 5 1 30]\<rparr>
   \<and> det_rc (detectBurst (example_lib 1 (- 3) 1) default_config [1, 2] 7 9 TSC) = - 3
   \<and> demodulateBurst (example_lib 1 (- 3) 1) default_config [1, 2] 1 (- 40) 5 TSC 7 9 =
       \<lparr>softBits = None, RSSI_out = 0, timingOffset_out = 5,
        events = [Call_energyDetect [1, 2] 20 0, Call_analyzeTrafficBurst [1, 2] 0 5 1 30,
                  LOG WARNING ''Unhandled RACH or Normal Burst detection error'']\<rparr>
   \<and> handle_options default_config = Inr default_config
   \<and> snd (main (example_lib 1 (- 2) 1) default_config [] zero_init (- 40) 5 7 9) = Return 0"
  using demodulateBurst_failure_null [of "example_lib 1 (- 2) 1" default_config "[1, 2]" 7 9 TSC
      1 "- 40" 5 "[]" zero_init]
    demodulateBurst_failure_null [of "example_lib 1 0 1" default_config "[1, 2]" 7 9 TSC
      1 "- 40" 5 "[]" zero_init]
    demodulateBurst_failure_null [of "example_lib 1 (- 3) 1" default_config "[1, 2]" 7 9 TSC
      1 "- 40" 5 "[]" zero_init]
  by (simp add: example_lib_def default_config_def stub_corr_def stub_energy_def Let_def
        detectBurst_def detectBurst_case_TSC_def detectBurst_return_def float_to_int_def
        demodulateBurst_def handle_options_def main_def)

section \<open>Option checks and the burst buffer\<close>

text \<open>
  Claim C5. The option checks let a configuration through, unchanged, if and only if
  \<^verbatim>\<open>rx_sps\<close> is 1 or 4, \<^verbatim>\<open>rtsc\<close> is at most 7 (it is unsigned, so at least 0), and
  \<^verbatim>\<open>edge\<close> implies \<^verbatim>\<open>rx_sps = 4\<close>. For every other configuration they print one message
  and the help text and call \<^verbatim>\<open>exit(0)\<close>, and these two outputs are all that \<^verbatim>\<open>main\<close>
  does: no burst is read and no collaborator is called.
\<close>

theorem handle_options_accepts_iff:
  "(handle_options config = Inr config) =
     ((rx_sps config = 1 \<or> rx_sps config = 4) \<and> rtsc config \<le> 7
      \<and> (edge config \<longrightarrow> rx_sps config = 4))
   \<and> (handle_options config \<noteq> Inr config \<longrightarrow>
        (\<exists>fmt args. handle_options config = Inl ([Printf fmt args, Print_help], Exit 0)
           \<and> main L config file init RSSI timingOffset amp toa =
               ([Printf fmt args, Print_help], Exit 0)))"
  by (auto simp add: handle_options_def main_def not_less)

theorem handle_options_accepts_iff_witness:
  "handle_options default_config = Inr default_config
   \<and> handle_options (default_config\<lparr>rx_sps := 4, edge := True, rtsc := 7\<rparr>) =
       Inr (default_config\<lparr>rx_sps := 4, edge := True, rtsc := 7\<rparr>)
   \<and> main (example_lib 1 1 1) (default_config\<lparr>rx_sps := 2\<rparr>) [] zero_init 0 0 0 0 =
       ([Printf ''Unsupported samples-per-symbol %i'' [2], Print_help], Exit 0)
   \<and> main (example_lib 1 1 1) (default_config\<lparr>edge := True\<rparr>) [] zero_init 0 0 0 0 =
       ([Printf ''EDGE only supported at 4 samples per symbol'' [], Print_help], Exit 0)
   \<and> main (example_lib 1 1 1) (default_config\<lparr>rtsc := 8\<rparr>) [] zero_init 0 0 0 0 =
       ([Printf ''Invalid training sequence %i'' [8], Print_help], Exit 0)"
  using handle_options_accepts_iff [of default_config "example_lib 1 1 1" "[]" zero_init 0 0 0 0]
    handle_options_accepts_iff [of "default_config\<lparr>rx_sps := 4, edge := True, rtsc := 7\<rparr>"
      "example_lib 1 1 1" "[]" zero_init 0 0 0 0]
    handle_options_accepts_iff [of "default_config\<lparr>rx_sps := 2\<rparr>"
      "example_lib 1 1 1" "[]" zero_init 0 0 0 0]
    handle_options_accepts_iff [of "default_config\<lparr>edge := True\<rparr>"
      "example_lib 1 1 1" "[]" zero_init 0 0 0 0]
    handle_options_accepts_iff [of "default_config\<lparr>rtsc := 8\<rparr>"
      "example_lib 1 1 1" "[]" zero_init 0 0 0 0]
  by (simp add: default_config_def handle_options_def main_def)

text \<open>
  Claim C6 says that the burst buffer has \<open>156 * rx_sps\<close> complex values and that
  \<open>156 * rx_sps * 2\<close> floats are read from the file. The program run at 4 samples per
  symbol, on a file of \<open>156 * 4 * 2 = 1248\<close> floats, does otherwise: the configuration
  passes the option checks, the buffer has 156 complex values, not \<open>156 * 4\<close>, and 312
  floats are read, not \<open>156 * 4 * 2\<close>. The same buffer is then processed as sampled at
  4 samples per symbol: the energy window is \<open>20 * 4 = 80\<close> samples, and the correlator
  and the demodulator are called on it with 4 samples per symbol.
\<close>

theorem main_burst_size_sps4:
  "handle_options (default_config\<lparr>rx_sps := 4\<rparr>) = Inr (default_config\<lparr>rx_sps := 4\<rparr>)
   \<and> length (main_burst (replicate 1248 0) zero_init) = 156
   \<and> length (main_burst (replicate 1248 0) zero_init) \<noteq>
       156 * unat (rx_sps (default_config\<lparr>rx_sps := 4\<rparr>))
   \<and> length (floats_read (replicate 1248 0)) = 312
   \<and> length (floats_read (replicate 1248 0)) \<noteq>
       156 * unat (rx_sps (default_config\<lparr>rx_sps := 4\<rparr>)) * 2
   \<and> main (example_lib 1 1 1) (default_config\<lparr>rx_sps := 4\<rparr>) (replicate 1248 0) zero_init
         0 0 0 0 =
       ([Print_config,
         Call_energyDetect (main_burst (replicate 1248 0) zero_init) 80 0,
         Call_analyzeTrafficBurst (main_burst (replicate 1248 0) zero_init) 0 5 4 30,
         Call_demodulateBurst (main_burst (replicate 1248 0) zero_init) 4 2 8],
        Return 0)"
proof -
  have m: "main (example_lib 1 1 1) (default_config\<lparr>rx_sps := 4\<rparr>) (replicate 1248 0)
             zero_init 0 0 0 0 =
           (Print_config # events (demodulateBurst (example_lib 1 1 1)
              (default_config\<lparr>rx_sps := 4\<rparr>) (main_burst (replicate 1248 0) zero_init)
              (sint (rx_sps (default_config\<lparr>rx_sps := 4\<rparr>))) 0 0
              (cfg_type (default_config\<lparr>rx_sps := 4\<rparr>)) 0 0), Return 0)"
    by (rule main_accepted [OF handle_options_sps4])
  have e: "events (demodulateBurst (example_lib 1 1 1)
              (default_config\<lparr>rx_sps := 4\<rparr>) (main_burst (replicate 1248 0) zero_init)
              (sint (rx_sps (default_config\<lparr>rx_sps := 4\<rparr>))) 0 0
              (cfg_type (default_config\<lparr>rx_sps := 4\<rparr>)) 0 0) =
           [Call_energyDetect (main_burst (replicate 1248 0) zero_init) 80 0,
            Call_analyzeTrafficBurst (main_burst (replicate 1248 0) zero_init) 0 5 4 30,
            Call_demodulateBurst (main_burst (replicate 1248 0) zero_init) 4 2 8]"
    by (simp add: example_lib_def default_config_def stub_corr_def stub_energy_def
          stub_demod_def Let_def detectBurst_def detectBurst_case_TSC_def
          detectBurst_return_def demodulateBurst_def CorrType_of_int_def)
  show ?thesis
    unfolding m e
    by (simp add: handle_options_sps4 length_main_burst length_floats_read burst_size_value)
qed

end
